theory Spec2Isabelle
  imports Main "HOL-Library.Word"
begin

unbundle bit_operations_syntax

section \<open>Data model\<close>

type_synonym u32 = "32 word"
type_synonym byte = "8 word"

text \<open>
  Go's \<open>error\<close> values. \<open>Errorf msg\<close> is \<open>fmt.Errorf(msg)\<close>; \<open>ErrorfW msg e\<close> is
  \<open>fmt.Errorf(msg + ": %w", e)\<close>, the wrapping form used on the write path.
  \<open>RuntimePanic\<close> is not a returned error: it stands for a Go run-time panic that
  unwinds the call (integer division by zero in \<open>readMap\<close>).
\<close>

datatype error =
    Errorf string
  | ErrorfW string error
  | RuntimePanic string

text \<open>
  Host values of Go's type \<open>any\<close>, as far as \<open>maps.go\<close> inspects them: a Go string
  (the type switch of \<open>writeMap\<close>), a native map (\<open>reflect.Map\<close>; the association
  list gives the keys in the order of \<open>rv.MapKeys()\<close>, keys are distinct), the
  pseudo-map \<open>struct { Data []struct{Key; Value} `json:"$mapdata"` }\<close> that
  \<open>readMap\<close> builds, and any other value (\<open>'a\<close>).
\<close>

datatype 'a goval =
    GoString string
  | GoOther 'a
  | GoMap "('a goval \<times> 'a goval) list"
  | GoMapData "('a goval \<times> 'a goval) list"

text \<open>A \<open>reflect.Type\<close>, as far as \<open>readMap\<close> uses it.\<close>

record reflectType =
  typeString :: string
  Comparable :: bool

text \<open>
  The collaborators of \<open>maps.go\<close> that live outside the file: the module's linear
  memory (\<open>wa.mod.Memory()\<close>), the guest allocator with its pin protocol, the type
  information service, the field codec and the hash function. They are parameters of the
  model. \<open>'s\<close> is the state of the guest instance (its memory included); a call that can
  change it returns the new state next to its result.
  \<open>ReadUint32Le\<close> and \<open>WriteUint32Le\<close> return \<open>None\<close> where Go returns \<open>ok = false\<close>.
  \<open>GetSizeOfType\<close> returns only the size: \<open>writeMap\<close> discards the error.
  \<open>GetTypeDefinition\<close> returns the \<open>Id\<close> field of the definition.
  \<open>GetHashCodeBytes\<close> is \<open>hash.GetHashCode\<close> applied to a byte slice.
  \<open>TypeOf\<close> is what the verb \<open>%T\<close> prints.
\<close>

record ('s, 'a) wasmAdapter =
  ReadUint32Le :: "'s \<Rightarrow> u32 \<Rightarrow> u32 option"
  WriteUint32Le :: "'s \<Rightarrow> u32 \<Rightarrow> u32 \<Rightarrow> 's option"
  allocateWasmMemory :: "'s \<Rightarrow> u32 \<Rightarrow> u32 \<Rightarrow> (error + u32) \<times> 's"
  pinWasmMemory :: "'s \<Rightarrow> u32 \<Rightarrow> error option \<times> 's"
  unpinWasmMemory :: "'s \<Rightarrow> u32 \<Rightarrow> error option \<times> 's"
  GetMapSubtypes :: "string \<Rightarrow> string \<times> string"
  GetSizeOfType :: "string \<Rightarrow> u32"
  GetTypeDefinition :: "string \<Rightarrow> error + u32"
  getReflectedType :: "string \<Rightarrow> error + reflectType"
  readField :: "'s \<Rightarrow> string \<Rightarrow> u32 \<Rightarrow> error + 'a goval"
  writeField :: "'s \<Rightarrow> string \<Rightarrow> u32 \<Rightarrow> 'a goval \<Rightarrow> (error + u32) \<times> 's"
  writeRawBytes :: "'s \<Rightarrow> byte list \<Rightarrow> u32 \<Rightarrow> (error + u32) \<times> 's"
  GetHashCode :: "'a goval \<Rightarrow> u32"
  GetHashCodeBytes :: "byte list \<Rightarrow> u32"
  EncodeUTF16 :: "string \<Rightarrow> byte list"
  TypeOf :: "'a goval \<Rightarrow> string"

section \<open>Offset and size helpers\<close>

text \<open>\<open>getSizeForOffset\<close> (maps.go, lines 324-333).\<close>

definition getSizeForOffset :: "string \<Rightarrow> u32" where
  "getSizeForOffset typ =
     (if typ = ''u64'' \<or> typ = ''i64'' \<or> typ = ''f64'' then 8 else 4)"

text \<open>
  The entry size of \<open>writeMap\<close> (lines 183-185):
  \<open>entryAlign := max(keySize, valueSize, 4) - 1\<close> and
  \<open>entrySize := (keySize + valueSize + taggedNextSize + entryAlign) & ^entryAlign\<close>,
  in \<open>uint32\<close> arithmetic.
\<close>

definition calcEntryAlign :: "u32 \<Rightarrow> u32 \<Rightarrow> u32" where
  "calcEntryAlign keySize valueSize = max (max keySize valueSize) 4 - 1"

definition calcEntrySize :: "u32 \<Rightarrow> u32 \<Rightarrow> u32" where
  "calcEntrySize keySize valueSize =
     (keySize + valueSize + 4 + calcEntryAlign keySize valueSize)
       AND NOT (calcEntryAlign keySize valueSize)"

text \<open>
  The alignment function in the words of the specification: \<open>align(n, a)\<close> rounds \<open>n\<close>
  up to the next multiple of \<open>a\<close>.
\<close>

definition spec_align :: "nat \<Rightarrow> nat \<Rightarrow> nat" where
  "spec_align n a = ((n + a - 1) div a) * a"

section \<open>Capacities\<close>

text \<open>
  The capacity loop of \<open>writeMap\<close> (lines 152-160). The loop variables are
  \<open>uint32\<close>: \<open>bucketsCapacity <<= 1\<close> wraps to 0 after \<open>2 ^ 31\<close>, and then the loop
  never ends; not returning is the value \<open>None\<close>.
\<close>

partial_function (option) capacityLoop :: "u32 \<Rightarrow> u32 \<Rightarrow> u32 \<Rightarrow> u32 \<Rightarrow> (u32 \<times> u32 \<times> u32) option" where
  "capacityLoop bucketsCapacity entriesCapacity bucketsMask mapLen =
     (if bucketsCapacity < mapLen then
        (let bucketsCapacity' = push_bit 1 bucketsCapacity;
             entriesCapacity' = bucketsCapacity' * 8 div 3;
             bucketsMask' = bucketsCapacity' - 1
         in capacityLoop bucketsCapacity' entriesCapacity' bucketsMask' mapLen)
      else Some (bucketsCapacity, entriesCapacity, bucketsMask))"

declare capacityLoop.simps [code]

text \<open>
  \<open>bucketsCapacity := uint32(4)\<close>, \<open>entriesCapacity := uint32(4)\<close>,
  \<open>bucketsMask := bucketsCapacity - 1\<close>, then the loop. The result is
  \<open>(bucketsCapacity, entriesCapacity, bucketsMask)\<close>.
\<close>

definition capacities :: "u32 \<Rightarrow> (u32 \<times> u32 \<times> u32) option" where
  "capacities mapLen = capacityLoop 4 4 (4 - 1) mapLen"

section \<open>Reading a map\<close>

text \<open>
  \<open>m.SetMapIndex(k, v)\<close> on a Go map: the value of an existing key is replaced, a
  new key is added.
\<close>

fun SetMapIndex :: "('k \<times> 'v) list \<Rightarrow> 'k \<Rightarrow> 'v \<Rightarrow> ('k \<times> 'v) list" where
  "SetMapIndex [] k v = [(k, v)]"
| "SetMapIndex ((k', v') # m) k v =
     (if k' = k then (k, v) # m else (k', v') # SetMapIndex m k v)"

text \<open>
  The loop of the comparable branch of \<open>readMap\<close> (lines 76-87):
  \<open>for i := uint32(0); i < entriesCount; i++\<close>.
\<close>

function readMapLoop ::
  "('s, 'a) wasmAdapter \<Rightarrow> 's \<Rightarrow> string \<Rightarrow> string \<Rightarrow> u32 \<Rightarrow> u32 \<Rightarrow> u32 \<Rightarrow> u32 \<Rightarrow> u32 \<Rightarrow>
     ('a goval \<times> 'a goval) list \<Rightarrow> error + ('a goval \<times> 'a goval) list" where
  "readMapLoop wa s keyType valueType entries entrySize valueOffset entriesCount i m =
     (if i < entriesCount then
        (let p = entries + (i * entrySize) in
         case readField wa s keyType p of
           Inl err \<Rightarrow> Inl err
         | Inr k \<Rightarrow>
            (case readField wa s valueType (p + valueOffset) of
               Inl err \<Rightarrow> Inl err
             | Inr v \<Rightarrow>
                 readMapLoop wa s keyType valueType entries entrySize valueOffset entriesCount
                   (i + 1) (SetMapIndex m k v)))
      else Inr m)"
  by pat_completeness auto
termination
proof (relation "measure (\<lambda>(wa, s, kt, vt, e, es, vo, n, i, m). unat n - unat i)", goal_cases)
  case 1
  show ?case by simp
next
  case (2 wa s keyType valueType entries entrySize valueOffset entriesCount i)
  from \<open>i < entriesCount\<close> have "unat entriesCount - unat (i + 1) < unat entriesCount - unat i"
    by unat_arith
  then show ?case by simp
qed

text \<open>
  The loop of the pseudo-map branch (lines 105-117): \<open>for i := 0; i < size; i++\<close>
  with \<open>size := int(entriesCount)\<close> (\<open>int\<close> has 64 bits) and
  \<open>p := entries + uint32(i)*entrySize\<close>. Iteration \<open>i\<close> assigns element \<open>i\<close> of
  the slice, so after it the assigned part of the slice is the list of the first
  \<open>i + 1\<close> pairs; a failing read returns \<open>nil\<close> and drops the slice.
\<close>

function readSliceLoop ::
  "('s, 'a) wasmAdapter \<Rightarrow> 's \<Rightarrow> string \<Rightarrow> string \<Rightarrow> u32 \<Rightarrow> u32 \<Rightarrow> u32 \<Rightarrow> nat \<Rightarrow> nat \<Rightarrow>
     ('a goval \<times> 'a goval) list \<Rightarrow> error + ('a goval \<times> 'a goval) list" where
  "readSliceLoop wa s keyType valueType entries entrySize valueOffset sz i sl =
     (if i < sz then
        (let p = entries + of_nat i * entrySize in
         case readField wa s keyType p of
           Inl err \<Rightarrow> Inl err
         | Inr k \<Rightarrow>
            (case readField wa s valueType (p + valueOffset) of
               Inl err \<Rightarrow> Inl err
             | Inr v \<Rightarrow>
                 readSliceLoop wa s keyType valueType entries entrySize valueOffset sz
                   (i + 1) (sl @ [(k, v)])))
      else Inr sl)"
  by pat_completeness auto
termination
  by (relation "measure (\<lambda>(wa, s, kt, vt, e, es, vo, sz, i, sl). sz - i)") auto

text \<open>
  \<open>readMap\<close> (lines 18-129). The reads of the buckets pointer, the buckets mask and
  the entries offset are commented out in the source and are not part of the function.
  \<open>byteLength / entriesCapacity\<close> is an integer division of \<open>uint32\<close> values: Go
  panics when the divisor is 0.
\<close>

definition readMap :: "('s, 'a) wasmAdapter \<Rightarrow> 's \<Rightarrow> string \<Rightarrow> u32 \<Rightarrow> error + 'a goval" where
  "readMap wa s typ offset =
     (case ReadUint32Le wa s (offset + 8) of
        None \<Rightarrow> Inl (Errorf ''failed to read map entries pointer'')
      | Some entries \<Rightarrow>
     (case ReadUint32Le wa s (offset + 12) of
        None \<Rightarrow> Inl (Errorf ''failed to read map entries capacity'')
      | Some entriesCapacity \<Rightarrow>
     (case ReadUint32Le wa s (offset + 20) of
        None \<Rightarrow> Inl (Errorf ''failed to read map entries count'')
      | Some entriesCount \<Rightarrow>
     (case ReadUint32Le wa s (entries - 4) of
        None \<Rightarrow> Inl (Errorf ''failed to read map entries buffer length'')
      | Some byteLength \<Rightarrow>
         if entriesCapacity = 0 then Inl (RuntimePanic ''integer divide by zero'')
         else
          (let entrySize = byteLength div entriesCapacity;
               (keyType, valueType) = GetMapSubtypes wa typ;
               valueOffset = getSizeForOffset keyType
           in case getReflectedType wa keyType of
                Inl err \<Rightarrow> Inl err
              | Inr rKeyType \<Rightarrow>
                 (case getReflectedType wa valueType of
                    Inl err \<Rightarrow> Inl err
                  | Inr rValueType \<Rightarrow>
                     if Comparable rKeyType then
                       (case readMapLoop wa s keyType valueType entries entrySize valueOffset
                               entriesCount 0 [] of
                          Inl err \<Rightarrow> Inl err
                        | Inr m \<Rightarrow> Inr (GoMap m))
                     else
                       (case readSliceLoop wa s keyType valueType entries entrySize valueOffset
                               (unat entriesCount) 0 [] of
                          Inl err \<Rightarrow> Inl err
                        | Inr sl \<Rightarrow> Inr (GoMapData sl))))))))"

section \<open>Writing a map\<close>

text \<open>
  The calls of \<open>writeMap\<close> that the pin protocol is about, in the order they are made:
  \<open>Pin p\<close> and \<open>Unpin p\<close> are the calls \<open>pinWasmMemory(ctx, p)\<close> and
  \<open>unpinWasmMemory(ctx, p)\<close>; \<open>FieldPtr p\<close> records that encoding a key or a value
  (\<open>writeField\<close>, \<open>writeRawBytes\<close>) returned the pointer \<open>p\<close>.
\<close>

datatype event = Pin u32 | Unpin u32 | FieldPtr u32

text \<open>
  The state of one \<open>writeMap\<close> call: the guest instance, the local slice \<open>pins\<close>
  and the calls made so far.
\<close>

record 's run =
  wstate :: 's
  pins :: "u32 list"
  calls :: "event list"

text \<open>
  \<open>err = wa.pinWasmMemory(ctx, ptr); if err != nil { return ... };
  pins = append(pins, ptr)\<close>. The caller decides how the error is returned.
\<close>

definition pinMemory :: "('s, 'a) wasmAdapter \<Rightarrow> u32 \<Rightarrow> 's run \<Rightarrow> error option \<times> 's run" where
  "pinMemory wa ptr r =
     (let (err, s') = pinWasmMemory wa (wstate r) ptr;
          r' = r\<lparr>wstate := s', calls := calls r @ [Pin ptr]\<rparr>
      in case err of
           Some e \<Rightarrow> (Some e, r')
         | None \<Rightarrow> (None, r'\<lparr>pins := pins r' @ [ptr]\<rparr>))"

text \<open>
  The deferred function (lines 143-150): \<open>for _, ptr := range pins { err =
  wa.unpinWasmMemory(ctx, ptr); if err != nil { break } }\<close>. \<open>err\<close> is the named
  result of \<open>writeMap\<close>: every iteration assigns it.
\<close>

fun unpinDeferred ::
  "('s, 'a) wasmAdapter \<Rightarrow> u32 list \<Rightarrow> error option \<Rightarrow> 's run \<Rightarrow> error option \<times> 's run" where
  "unpinDeferred wa [] err r = (err, r)"
| "unpinDeferred wa (ptr # ptrs) err r =
     (let (err', s') = unpinWasmMemory wa (wstate r) ptr;
          r' = r\<lparr>wstate := s', calls := calls r @ [Unpin ptr]\<rparr>
      in case err' of
           Some e \<Rightarrow> (Some e, r')
         | None \<Rightarrow> unpinDeferred wa ptrs None r')"

text \<open>
  Lines 162-198: the buckets buffer and the entries buffer are allocated and pinned.
  The result is \<open>(bucketsBufferOffset, entriesBufferOffset, entrySize)\<close>.
\<close>

definition allocBuffers ::
  "('s, 'a) wasmAdapter \<Rightarrow> string \<Rightarrow> u32 \<Rightarrow> u32 \<Rightarrow> 's run \<Rightarrow> (error + u32 \<times> u32 \<times> u32) \<times> 's run" where
  "allocBuffers wa typ bucketsCapacity entriesCapacity r =
     (let bucketsBufferSize = 4 * bucketsCapacity;
          (res, s1) = allocateWasmMemory wa (wstate r) bucketsBufferSize 1;
          r1 = r\<lparr>wstate := s1\<rparr>
      in case res of
           Inl err \<Rightarrow> (Inl (ErrorfW ''failed to allocate memory for array buffer'' err), r1)
         | Inr bucketsBufferOffset \<Rightarrow>
            (case pinMemory wa bucketsBufferOffset r1 of
               (Some err, r2) \<Rightarrow> (Inl (ErrorfW ''failed to pin array buffer'' err), r2)
             | (None, r2) \<Rightarrow>
                (let (keyType, valueType) = GetMapSubtypes wa typ;
                     keySize = GetSizeOfType wa keyType;
                     valueSize = GetSizeOfType wa valueType;
                     entrySize = calcEntrySize keySize valueSize;
                     entriesBufferSize = entrySize * entriesCapacity;
                     (res', s3) = allocateWasmMemory wa (wstate r2) entriesBufferSize 1;
                     r3 = r2\<lparr>wstate := s3\<rparr>
                 in case res' of
                      Inl err \<Rightarrow>
                        (Inl (ErrorfW ''failed to allocate memory for array buffer'' err), r3)
                    | Inr entriesBufferOffset \<Rightarrow>
                       (case pinMemory wa entriesBufferOffset r3 of
                          (Some err, r4) \<Rightarrow> (Inl (ErrorfW ''failed to pin array buffer'' err), r4)
                        | (None, r4) \<Rightarrow>
                            (Inr (bucketsBufferOffset, entriesBufferOffset, entrySize), r4)))))"

text \<open>
  Lines 209-234: the key of an entry is written and hashed. A Go string is encoded as
  UTF-16 and written with \<open>writeRawBytes\<close>, and its pointer is stored at the entry; any
  other key goes through \<open>writeField\<close>. The result is \<open>(ptr, hashCode)\<close>.
\<close>

definition writeKey ::
  "('s, 'a) wasmAdapter \<Rightarrow> string \<Rightarrow> u32 \<Rightarrow> 'a goval \<Rightarrow> 's run \<Rightarrow> (error + u32 \<times> u32) \<times> 's run" where
  "writeKey wa keyType entryOffset key r =
     (case key of
        GoString t \<Rightarrow>
          (let bytes = EncodeUTF16 wa t;
               hashCode = GetHashCodeBytes wa bytes;
               (res, s1) = writeRawBytes wa (wstate r) bytes 2;
               r1 = r\<lparr>wstate := s1\<rparr>
           in case res of
                Inl err \<Rightarrow> (Inl (ErrorfW ''failed to write map entry key'' err), r1)
              | Inr ptr \<Rightarrow>
                 (let r2 = r1\<lparr>calls := calls r1 @ [FieldPtr ptr]\<rparr>
                  in case WriteUint32Le wa (wstate r2) entryOffset ptr of
                       None \<Rightarrow> (Inl (Errorf ''failed to write map entry key pointer''), r2)
                     | Some s3 \<Rightarrow> (Inr (ptr, hashCode), r2\<lparr>wstate := s3\<rparr>)))
      | _ \<Rightarrow>
          (let hashCode = GetHashCode wa key;
               (res, s1) = writeField wa (wstate r) keyType entryOffset key;
               r1 = r\<lparr>wstate := s1\<rparr>
           in case res of
                Inl err \<Rightarrow> (Inl (ErrorfW ''failed to write map entry key'' err), r1)
              | Inr ptr \<Rightarrow> (Inr (ptr, hashCode), r1\<lparr>calls := calls r1 @ [FieldPtr ptr]\<rparr>)))"

text \<open>
  Lines 236-243 and 254-261: \<open>if ptr != 0 { err = wa.pinWasmMemory(ctx, ptr); if err
  != nil { return 0, err }; pins = append(pins, ptr) }\<close>.
\<close>

definition pinIfAllocated :: "('s, 'a) wasmAdapter \<Rightarrow> u32 \<Rightarrow> 's run \<Rightarrow> error option \<times> 's run" where
  "pinIfAllocated wa ptr r = (if ptr \<noteq> 0 then pinMemory wa ptr r else (None, r))"

text \<open>
  Lines 263-276: the entry is linked into its bucket. The old head of the bucket is read,
  stored in the entry's tagged-next field, and the bucket is made to point to the entry.
\<close>

definition linkEntry ::
  "('s, 'a) wasmAdapter \<Rightarrow> u32 \<Rightarrow> u32 \<Rightarrow> u32 \<Rightarrow> u32 \<Rightarrow> u32 \<Rightarrow> 's run \<Rightarrow> error option \<times> 's run" where
  "linkEntry wa bucketsBufferOffset bucketsMask hashCode entryOffset taggedNextOffset r =
     (let bucketPtrBase = bucketsBufferOffset + ((hashCode AND bucketsMask) * 4)
      in case ReadUint32Le wa (wstate r) bucketPtrBase of
           None \<Rightarrow> (Some (Errorf ''failed to read previous map entry bucket pointer''), r)
         | Some prev \<Rightarrow>
            (case WriteUint32Le wa (wstate r) (entryOffset + taggedNextOffset) prev of
               None \<Rightarrow> (Some (Errorf ''failed to write map entry tagged next field''), r)
             | Some s1 \<Rightarrow>
                (case WriteUint32Le wa s1 bucketPtrBase entryOffset of
                   None \<Rightarrow>
                     (Some (Errorf ''failed to write map entry bucket pointer''), r\<lparr>wstate := s1\<rparr>)
                 | Some s2 \<Rightarrow> (None, r\<lparr>wstate := s2\<rparr>))))"

text \<open>
  The body of the loop over the keys (lines 205-277) for entry number \<open>i\<close> with key
  \<open>key\<close> and value \<open>val\<close> (\<open>rv.MapIndex(mapKey)\<close>). \<open>Some err\<close> is
  \<open>return 0, err\<close>.
\<close>

definition writeEntry ::
  "('s, 'a) wasmAdapter \<Rightarrow> string \<Rightarrow> string \<Rightarrow> u32 \<Rightarrow> u32 \<Rightarrow> u32 \<Rightarrow> u32 \<Rightarrow> u32 \<Rightarrow> u32 \<Rightarrow>
     nat \<Rightarrow> 'a goval \<Rightarrow> 'a goval \<Rightarrow> 's run \<Rightarrow> error option \<times> 's run" where
  "writeEntry wa keyType valueType bucketsBufferOffset bucketsMask entriesBufferOffset entrySize
       valueOffset taggedNextOffset i key val r =
     (let entryOffset = entriesBufferOffset + (entrySize * of_nat i)
      in case writeKey wa keyType entryOffset key r of
           (Inl err, r1) \<Rightarrow> (Some err, r1)
         | (Inr (ptr, hashCode), r1) \<Rightarrow>
            (case pinIfAllocated wa ptr r1 of
               (Some err, r2) \<Rightarrow> (Some err, r2)
             | (None, r2) \<Rightarrow>
                (let entryValueOffset = entryOffset + valueOffset;
                     (res, s3) = writeField wa (wstate r2) valueType entryValueOffset val;
                     r3 = r2\<lparr>wstate := s3\<rparr>
                 in case res of
                      Inl err \<Rightarrow> (Some (ErrorfW ''failed to write map entry value'' err), r3)
                    | Inr ptr' \<Rightarrow>
                       (case pinIfAllocated wa ptr' (r3\<lparr>calls := calls r3 @ [FieldPtr ptr']\<rparr>) of
                          (Some err, r4) \<Rightarrow> (Some err, r4)
                        | (None, r4) \<Rightarrow>
                            linkEntry wa bucketsBufferOffset bucketsMask hashCode entryOffset
                              taggedNextOffset r4))))"

text \<open>\<open>for i, mapKey := range mapKeys\<close>: the entries are written in order, from index \<open>i\<close>.\<close>

fun writeEntries ::
  "('s, 'a) wasmAdapter \<Rightarrow> string \<Rightarrow> string \<Rightarrow> u32 \<Rightarrow> u32 \<Rightarrow> u32 \<Rightarrow> u32 \<Rightarrow> u32 \<Rightarrow> u32 \<Rightarrow>
     nat \<Rightarrow> ('a goval \<times> 'a goval) list \<Rightarrow> 's run \<Rightarrow> error option \<times> 's run" where
  "writeEntries wa keyType valueType bucketsBufferOffset bucketsMask entriesBufferOffset entrySize
       valueOffset taggedNextOffset i [] r = (None, r)"
| "writeEntries wa keyType valueType bucketsBufferOffset bucketsMask entriesBufferOffset entrySize
       valueOffset taggedNextOffset i ((key, val) # kvs) r =
     (case writeEntry wa keyType valueType bucketsBufferOffset bucketsMask entriesBufferOffset
             entrySize valueOffset taggedNextOffset i key val r of
        (Some err, r') \<Rightarrow> (Some err, r')
      | (None, r') \<Rightarrow>
          writeEntries wa keyType valueType bucketsBufferOffset bucketsMask entriesBufferOffset
            entrySize valueOffset taggedNextOffset (i + 1) kvs r')"

text \<open>
  Lines 279-321: the map object is allocated and its six fields are written. The result
  is the pair \<open>(offset, err)\<close> of the \<open>return\<close> statement reached.
\<close>

definition writeHeader ::
  "('s, 'a) wasmAdapter \<Rightarrow> string \<Rightarrow> u32 \<Rightarrow> u32 \<Rightarrow> u32 \<Rightarrow> u32 \<Rightarrow> u32 \<Rightarrow> 's run \<Rightarrow>
     (u32 \<times> error option) \<times> 's run" where
  "writeHeader wa typ bucketsBufferOffset bucketsMask entriesBufferOffset entriesCapacity mapLen r =
     (case GetTypeDefinition wa typ of
        Inl err \<Rightarrow> ((0, Some err), r)
      | Inr defId \<Rightarrow>
         (let (res, s1) = allocateWasmMemory wa (wstate r) 24 defId;
              r1 = r\<lparr>wstate := s1\<rparr>
          in case res of
               Inl err \<Rightarrow> ((0, Some err), r1)
             | Inr offset \<Rightarrow>
          (case WriteUint32Le wa s1 offset bucketsBufferOffset of
             None \<Rightarrow> ((0, Some (Errorf ''failed to write map buckets pointer'')), r1)
           | Some s2 \<Rightarrow>
          (case WriteUint32Le wa s2 (offset + 4) bucketsMask of
             None \<Rightarrow> ((0, Some (Errorf ''failed to write map buckets mask'')), r1\<lparr>wstate := s2\<rparr>)
           | Some s3 \<Rightarrow>
          (case WriteUint32Le wa s3 (offset + 8) entriesBufferOffset of
             None \<Rightarrow> ((0, Some (Errorf ''failed to write map entries pointer'')), r1\<lparr>wstate := s3\<rparr>)
           | Some s4 \<Rightarrow>
          (case WriteUint32Le wa s4 (offset + 12) entriesCapacity of
             None \<Rightarrow> ((0, Some (Errorf ''failed to write map entries capacity'')), r1\<lparr>wstate := s4\<rparr>)
           | Some s5 \<Rightarrow>
          (case WriteUint32Le wa s5 (offset + 16) mapLen of
             None \<Rightarrow> ((0, Some (Errorf ''failed to write map entries offset'')), r1\<lparr>wstate := s5\<rparr>)
           | Some s6 \<Rightarrow>
          (case WriteUint32Le wa s6 (offset + 20) mapLen of
             None \<Rightarrow> ((0, Some (Errorf ''failed to write map entries count'')), r1\<lparr>wstate := s6\<rparr>)
           | Some s7 \<Rightarrow> ((offset, None), r1\<lparr>wstate := s7\<rparr>)))))))))"

text \<open>
  The body of \<open>writeMap\<close> after the capacity loop (lines 162-321), up to the
  \<open>return\<close> statement it reaches.
\<close>

definition writeMapBody ::
  "('s, 'a) wasmAdapter \<Rightarrow> string \<Rightarrow> ('a goval \<times> 'a goval) list \<Rightarrow> u32 \<Rightarrow> u32 \<times> u32 \<times> u32 \<Rightarrow>
     's run \<Rightarrow> (u32 \<times> error option) \<times> 's run" where
  "writeMapBody wa typ kvs mapLen caps r =
     (let (bucketsCapacity, entriesCapacity, bucketsMask) = caps
      in case allocBuffers wa typ bucketsCapacity entriesCapacity r of
           (Inl err, r1) \<Rightarrow> ((0, Some err), r1)
         | (Inr (bucketsBufferOffset, entriesBufferOffset, entrySize), r1) \<Rightarrow>
            (let (keyType, valueType) = GetMapSubtypes wa typ;
                 valueOffset = getSizeForOffset keyType;
                 taggedNextOffset = getSizeForOffset valueType + valueOffset
             in case writeEntries wa keyType valueType bucketsBufferOffset bucketsMask
                       entriesBufferOffset entrySize valueOffset taggedNextOffset 0 kvs r1 of
                  (Some err, r2) \<Rightarrow> ((0, Some err), r2)
                | (None, r2) \<Rightarrow>
                    writeHeader wa typ bucketsBufferOffset bucketsMask entriesBufferOffset
                      entriesCapacity mapLen r2))"

text \<open>
  \<open>writeMap\<close> (lines 131-322). A value that is not of kind \<open>reflect.Map\<close> is refused
  before the deferred function is installed. Otherwise the body runs, and then the
  deferred function, which can change the result \<open>err\<close>. The result is the pair
  \<open>(offset, err)\<close> that the caller receives, the state of the guest instance and the
  calls made; \<open>None\<close> stands for a capacity loop that does not end.
\<close>

definition writeMap ::
  "('s, 'a) wasmAdapter \<Rightarrow> 's \<Rightarrow> string \<Rightarrow> 'a goval \<Rightarrow>
     ((u32 \<times> error option) \<times> 's \<times> event list) option" where
  "writeMap wa s typ data =
     (case data of
        GoMap kvs \<Rightarrow>
          (let mapLen = (of_nat (length kvs) :: u32)
           in case capacities mapLen of
                None \<Rightarrow> None
              | Some caps \<Rightarrow>
                 (let ((offset, err), r) =
                        writeMapBody wa typ kvs mapLen caps \<lparr>wstate = s, pins = [], calls = []\<rparr>;
                      (err', r') = unpinDeferred wa (pins r) err r
                  in Some ((offset, err'), wstate r', calls r')))
      | _ \<Rightarrow> Some ((0, Some (Errorf (''unsupported map type '' @ TypeOf wa data))), s, []))"

section \<open>A sample guest instance\<close>

text \<open>
  A small guest instance on which the functions above can be run. Its linear memory holds
  32-bit words at the addresses where \<open>mem\<close> is defined; every other address is out of
  bounds. The allocator hands out consecutive blocks below \<open>limit\<close>, each preceded by a
  word that holds its byte length, and zero-initialised. The byte strings written by
  \<open>writeRawBytes\<close> are kept per object in \<open>objs\<close>. \<open>pinned\<close> lists the pinned
  pointers. Values other than strings are 32-bit numbers.
\<close>

record guest =
  mem :: "u32 \<Rightarrow> u32 option"
  objs :: "u32 \<Rightarrow> byte list option"
  brk :: u32
  limit :: u32
  pinned :: "u32 list"

definition gRead :: "guest \<Rightarrow> u32 \<Rightarrow> u32 option" where
  "gRead g a = mem g a"

definition gWrite :: "guest \<Rightarrow> u32 \<Rightarrow> u32 \<Rightarrow> guest option" where
  "gWrite g a v = (case mem g a of None \<Rightarrow> None | Some _ \<Rightarrow> Some (g\<lparr>mem := (mem g)(a \<mapsto> v)\<rparr>))"

definition gAllocate :: "guest \<Rightarrow> u32 \<Rightarrow> u32 \<Rightarrow> (error + u32) \<times> guest" where
  "gAllocate g n typeId =
     (if unat (limit g) < unat (brk g) + 4 + unat n then (Inl (Errorf ''out of memory''), g)
      else (let p = brk g + 4
            in (Inr p,
                g\<lparr>mem := (\<lambda>a. if a = brk g then Some n
                              else if p \<le> a \<and> a < p + n \<and> (a - p) AND 3 = 0 then Some 0
                              else mem g a),
                  brk := p + n\<rparr>)))"

definition gPin :: "guest \<Rightarrow> u32 \<Rightarrow> error option \<times> guest" where
  "gPin g p =
     (if p \<in> set (pinned g) then (Some (Errorf ''already pinned''), g)
      else (None, g\<lparr>pinned := p # pinned g\<rparr>))"

definition gUnpin :: "guest \<Rightarrow> u32 \<Rightarrow> error option \<times> guest" where
  "gUnpin g p =
     (if p \<in> set (pinned g) then (None, g\<lparr>pinned := removeAll p (pinned g)\<rparr>)
      else (Some (Errorf ''not pinned''), g))"

definition gEncodeUTF16 :: "string \<Rightarrow> byte list" where
  "gEncodeUTF16 str = concat (map (\<lambda>c. [of_char c, 0]) str)"

fun gDecodeUTF16 :: "byte list \<Rightarrow> string" where
  "gDecodeUTF16 (lo # hi # bs) = char_of (unat lo) # gDecodeUTF16 bs"
| "gDecodeUTF16 _ = []"

definition gWriteRawBytes :: "guest \<Rightarrow> byte list \<Rightarrow> u32 \<Rightarrow> (error + u32) \<times> guest" where
  "gWriteRawBytes g bytes typeId =
     (case gAllocate g (of_nat (length bytes)) typeId of
        (Inl err, g') \<Rightarrow> (Inl err, g')
      | (Inr p, g') \<Rightarrow> (Inr p, g'\<lparr>objs := (objs g')(p \<mapsto> bytes)\<rparr>))"

definition gWriteField :: "guest \<Rightarrow> string \<Rightarrow> u32 \<Rightarrow> u32 goval \<Rightarrow> (error + u32) \<times> guest" where
  "gWriteField g typ a x =
     (case x of
        GoString str \<Rightarrow>
          (case gWriteRawBytes g (gEncodeUTF16 str) 2 of
             (Inl err, g') \<Rightarrow> (Inl err, g')
           | (Inr p, g') \<Rightarrow>
              (case gWrite g' a p of
                 None \<Rightarrow> (Inl (Errorf ''failed to write string pointer''), g')
               | Some g'' \<Rightarrow> (Inr p, g'')))
      | GoOther w \<Rightarrow>
          (case gWrite g a w of
             None \<Rightarrow> (Inl (Errorf ''failed to write field''), g)
           | Some g' \<Rightarrow> (Inr 0, g'))
      | _ \<Rightarrow> (Inl (Errorf ''unsupported field value''), g))"

definition gReadField :: "guest \<Rightarrow> string \<Rightarrow> u32 \<Rightarrow> error + u32 goval" where
  "gReadField g typ a =
     (case mem g a of
        None \<Rightarrow> Inl (Errorf ''failed to read field'')
      | Some w \<Rightarrow>
          if typ = ''string'' then
            (case objs g w of
               None \<Rightarrow> Inl (Errorf ''failed to read string'')
             | Some bytes \<Rightarrow> Inr (GoString (gDecodeUTF16 bytes)))
          else Inr (GoOther w))"

definition gTypeOf :: "u32 goval \<Rightarrow> string" where
  "gTypeOf x =
     (case x of
        GoString _ \<Rightarrow> ''string''
      | GoOther _ \<Rightarrow> ''uint32''
      | GoMap _ \<Rightarrow> ''map[string]uint32''
      | GoMapData _ \<Rightarrow> ''struct { Data []struct { Key []uint32; Value uint32 } }'')"

text \<open>
  The adapter of the sample instance for maps from \<open>keyType\<close> to \<open>valueType\<close>.
  Array types are reflected as Go slices, which are not comparable. Numbers hash to
  themselves, byte strings to their length.
\<close>

definition guestAdapter :: "string \<Rightarrow> string \<Rightarrow> (guest, u32) wasmAdapter" where
  "guestAdapter keyType valueType =
     \<lparr>ReadUint32Le = gRead,
      WriteUint32Le = gWrite,
      allocateWasmMemory = gAllocate,
      pinWasmMemory = gPin,
      unpinWasmMemory = gUnpin,
      GetMapSubtypes = (\<lambda>typ. (keyType, valueType)),
      GetSizeOfType = getSizeForOffset,
      GetTypeDefinition = (\<lambda>typ. Inr 7),
      getReflectedType = (\<lambda>typ. Inr \<lparr>typeString = typ, Comparable = (take 6 typ \<noteq> ''Array<'')\<rparr>),
      readField = gReadField,
      writeField = gWriteField,
      writeRawBytes = gWriteRawBytes,
      GetHashCode = (\<lambda>x. case x of GoOther w \<Rightarrow> w | _ \<Rightarrow> 0),
      GetHashCodeBytes = (\<lambda>bytes. of_nat (length bytes)),
      EncodeUTF16 = gEncodeUTF16,
      TypeOf = gTypeOf\<rparr>"

text \<open>An instance with no memory in use: \<open>lim\<close> bytes can be allocated from address 0.\<close>

definition emptyGuest :: "u32 \<Rightarrow> guest" where
  "emptyGuest lim = \<lparr>mem = (\<lambda>a. None), objs = (\<lambda>p. None), brk = 0, limit = lim, pinned = []\<rparr>"

text \<open>An instance whose memory holds exactly the listed words, with nothing allocated.\<close>

definition wordsGuest :: "(u32 \<times> u32) list \<Rightarrow> guest" where
  "wordsGuest ws = \<lparr>mem = map_of ws, objs = (\<lambda>p. None), brk = 0, limit = 0, pinned = []\<rparr>"

section \<open>Reading the calls of a run\<close>

text \<open>The pointers of the \<open>Pin\<close> calls, of the \<open>Unpin\<close> calls and of the encodings, in order.\<close>

fun pinsOf :: "event list \<Rightarrow> u32 list" where
  "pinsOf [] = []"
| "pinsOf (Pin p # es) = p # pinsOf es"
| "pinsOf (e # es) = pinsOf es"

fun unpinsOf :: "event list \<Rightarrow> u32 list" where
  "unpinsOf [] = []"
| "unpinsOf (Unpin p # es) = p # unpinsOf es"
| "unpinsOf (e # es) = unpinsOf es"

fun fieldPtrsOf :: "event list \<Rightarrow> u32 list" where
  "fieldPtrsOf [] = []"
| "fieldPtrsOf (FieldPtr p # es) = p # fieldPtrsOf es"
| "fieldPtrsOf (e # es) = fieldPtrsOf es"

section \<open>Word arithmetic\<close>

lemma unat_pow2: "k < 32 \<Longrightarrow> unat ((2::u32) ^ k) = 2 ^ k"
proof -
  assume k: "k < 32"
  have "unat (word_of_nat (2 ^ k) :: u32) = 2 ^ k mod 2 ^ 32"
    using unat_of_nat [of "2 ^ k", where 'a = 32] by simp
  moreover have "(2::nat) ^ k < 2 ^ 32"
    by (rule power_strict_increasing) (use k in simp_all)
  ultimately show ?thesis by simp
qed

lemma unat_lt32: "unat (x::u32) < 2 ^ 32"
  using unsigned_less [of x] by simp

lemma unat_add_nowrap:
  "unat (x::u32) + unat y < 2 ^ 32 \<Longrightarrow> unat (x + y) = unat x + unat y"
  using unat_add_lem [of x y] by simp

lemma and_not_mask_down:
  fixes x :: u32
  shows "unat (x AND NOT (mask j)) = (unat x div 2 ^ j) * 2 ^ j"
proof -
  have d: "unat (drop_bit j x) = unat x div 2 ^ j"
    by (simp only: unat_drop_bit_eq) (simp add: drop_bit_eq_div)
  have "x AND NOT (mask j) = push_bit j (drop_bit j x)"
    by (rule bit_eqI) (auto simp add: bit_simps)
  then have "unat (x AND NOT (mask j)) = unat (push_bit j (drop_bit j x))" by simp
  also have "\<dots> = take_bit 32 (push_bit j (unat (drop_bit j x)))"
    by (simp only: unsigned_push_bit_eq) simp
  also have "\<dots> = ((unat x div 2 ^ j) * 2 ^ j) mod 2 ^ 32"
    by (simp only: d push_bit_eq_mult take_bit_eq_mod)
  also have "\<dots> = (unat x div 2 ^ j) * 2 ^ j"
  proof (rule mod_less)
    have "(unat x div 2 ^ j) * 2 ^ j \<le> unat x" by simp
    then show "(unat x div 2 ^ j) * 2 ^ j < 2 ^ 32"
      using unat_lt32 [of x] by (rule le_less_trans)
  qed
  finally show ?thesis .
qed

lemma pow2_word_inj: "unat (m::u32) = 2 ^ j \<Longrightarrow> m = 2 ^ j"
proof -
  assume a: "unat m = 2 ^ j"
  have lt: "(2::nat) ^ j < 2 ^ 32" using unat_lt32 [of m] by (simp only: a)
  have "j < 32"
  proof (rule ccontr)
    assume "\<not> j < 32"
    then have "(2::nat) ^ 32 \<le> 2 ^ j" by (intro power_increasing) simp_all
    with lt show False by linarith
  qed
  then have "unat ((2::u32) ^ j) = 2 ^ j" by (rule unat_pow2)
  with a have "unat m = unat ((2::u32) ^ j)" by simp
  then show ?thesis by (simp only: word_unat_eq_iff)
qed

section \<open>Capacity growth\<close>

lemma capacityLoop_step:
  "bc < mapLen \<Longrightarrow> capacityLoop bc ec bm mapLen =
     capacityLoop (push_bit 1 bc) (push_bit 1 bc * 8 div 3) (push_bit 1 bc - 1) mapLen"
  by (subst capacityLoop.simps) (simp add: Let_def)

lemma capacityLoop_stop:
  "\<not> bc < mapLen \<Longrightarrow> capacityLoop bc ec bm mapLen = Some (bc, ec, bm)"
  by (subst capacityLoop.simps) simp

lemma push_bit_pow2: "push_bit 1 ((2::u32) ^ k) = 2 ^ Suc k"
  by (simp add: push_bit_eq_mult)

text \<open>
  From a power of two the loop stops at the first power of two that is not below the
  count, as long as the count is at most \<open>2 ^ 31\<close>.
\<close>

lemma capacityLoop_pow2:
  assumes "unat mapLen \<le> 2 ^ 31"
  shows "k \<le> 31 \<Longrightarrow> \<exists>j. k \<le> j \<and> j \<le> 31 \<and> unat mapLen \<le> 2 ^ j \<and>
            (j = k \<or> 2 ^ (j - 1) < unat mapLen) \<and>
            capacityLoop (2 ^ k) ec bm mapLen =
              Some (2 ^ j, (if j = k then ec else 2 ^ j * 8 div 3),
                    (if j = k then bm else 2 ^ j - 1))"
proof (induction "31 - k" arbitrary: k ec bm)
  case 0
  then have k: "k = 31" by simp
  have "unat ((2::u32) ^ k) = 2 ^ 31" unfolding k by (rule unat_pow2) simp
  with assms have "\<not> (2::u32) ^ k < mapLen" by (simp add: word_less_nat_alt)
  then have "capacityLoop (2 ^ k) ec bm mapLen = Some (2 ^ k, ec, bm)"
    by (rule capacityLoop_stop)
  moreover have "unat mapLen \<le> 2 ^ k" using assms k by simp
  ultimately show ?case using k by (intro exI [of _ k]) simp
next
  case (Suc d)
  then have k: "k < 31" by simp
  then have u: "unat ((2::u32) ^ k) = 2 ^ k" by (intro unat_pow2) simp
  show ?case
  proof (cases "(2::u32) ^ k < mapLen")
    case False
    then have "capacityLoop (2 ^ k) ec bm mapLen = Some (2 ^ k, ec, bm)"
      by (rule capacityLoop_stop)
    moreover have "unat mapLen \<le> 2 ^ k" using False u by (simp add: word_less_nat_alt)
    ultimately show ?thesis using k by (intro exI [of _ k]) simp
  next
    case True
    then have lt: "2 ^ k < unat mapLen" using u by (simp add: word_less_nat_alt)
    have d: "d = 31 - Suc k" using Suc.hyps(2) by simp
    have "Suc k \<le> 31" using k by simp
    from Suc.hyps(1) [OF d this, of "2 ^ Suc k * 8 div 3" "2 ^ Suc k - 1"]
    obtain j where j: "Suc k \<le> j" "j \<le> 31" "unat mapLen \<le> 2 ^ j"
        "j = Suc k \<or> 2 ^ (j - 1) < unat mapLen"
        "capacityLoop (2 ^ Suc k) (2 ^ Suc k * 8 div 3) (2 ^ Suc k - 1) mapLen =
           Some (2 ^ j, (if j = Suc k then 2 ^ Suc k * 8 div 3 else 2 ^ j * 8 div 3),
                 (if j = Suc k then 2 ^ Suc k - 1 else 2 ^ j - 1))"
      by blast
    have step: "capacityLoop (2 ^ k) ec bm mapLen =
        capacityLoop (2 ^ Suc k) (2 ^ Suc k * 8 div 3) (2 ^ Suc k - 1) mapLen"
      using capacityLoop_step [OF True, of ec bm] by (simp only: push_bit_pow2)
    have jk: "j \<noteq> k" using j(1) by simp
    have "2 ^ (j - 1) < unat mapLen" using j(4) lt by auto
    moreover have "capacityLoop (2 ^ k) ec bm mapLen = Some (2 ^ j, 2 ^ j * 8 div 3, 2 ^ j - 1)"
      unfolding step j(5) by auto
    ultimately show ?thesis using j(1,2,3) jk by (intro exI [of _ j]) simp
  qed
qed

text \<open>Below \<open>2 ^ 29\<close> buckets the product \<open>bucketsCapacity * 8\<close> does not wrap around.\<close>

lemma unat_entriesCapacity:
  assumes "j \<le> 28"
  shows "unat ((2::u32) ^ j * 8 div 3) = 2 ^ j * 8 div 3"
proof -
  have j3: "j + 3 < 32" using assms by simp
  have "(2::u32) ^ j * 8 = 2 ^ (j + 3)" by (simp add: power_add)
  then have "unat ((2::u32) ^ j * 8) = 2 ^ (j + 3)" using unat_pow2 [OF j3] by simp
  then have "unat ((2::u32) ^ j * 8 div 3) = 2 ^ (j + 3) div 3"
    by (simp add: unat_div)
  then show ?thesis by (simp add: power_add)
qed

text \<open>
  C2 (as amended). For every element count up to \<open>2 ^ 31\<close>, \<open>writeMap\<close> computes
  \<open>bucketsCapacity\<close> as the smallest power of two that is at least the count, with a
  minimum of 4, and \<open>bucketsMask = bucketsCapacity - 1\<close>. \<open>entriesCapacity\<close> is 4 while
  \<open>bucketsCapacity\<close> is 4 (counts 0 to 4); for larger counts it is
  \<open>bucketsCapacity * 8 / 3\<close> in \<open>uint32\<close> arithmetic, which is the exact integer quotient
  as long as \<open>bucketsCapacity\<close> is at most \<open>2 ^ 28\<close>.
\<close>

theorem capacities_growth:
  assumes "unat mapLen \<le> 2 ^ 31"
  shows "\<exists>j. 2 \<le> j \<and> j \<le> 31 \<and> unat mapLen \<le> 2 ^ j \<and> (j = 2 \<or> 2 ^ (j - 1) < unat mapLen) \<and>
           capacities mapLen = Some (2 ^ j, (if j = 2 then 4 else 2 ^ j * 8 div 3), 2 ^ j - 1) \<and>
           (j \<le> 28 \<longrightarrow> unat ((2::u32) ^ j * 8 div 3) = 2 ^ j * 8 div 3)"
proof -
  from capacityLoop_pow2 [OF assms, of 2 4 3]
  obtain j where j: "2 \<le> j" "j \<le> 31" "unat mapLen \<le> 2 ^ j" "j = 2 \<or> 2 ^ (j - 1) < unat mapLen"
      "capacityLoop (2 ^ 2) 4 3 mapLen =
         Some (2 ^ j, (if j = 2 then 4 else 2 ^ j * 8 div 3), (if j = 2 then 3 else 2 ^ j - 1))"
    by auto
  have "capacities mapLen = Some (2 ^ j, (if j = 2 then 4 else 2 ^ j * 8 div 3), 2 ^ j - 1)"
    using j(5) by (auto simp: capacities_def)
  with j(1-4) unat_entriesCapacity [of j] show ?thesis by blast
qed

theorem capacities_growth_witness:
  "unat (17::u32) \<le> 2 ^ 31 \<and> capacities 17 = Some (32, 85, 31) \<and>
   (\<exists>j. 2 \<le> j \<and> j \<le> 31 \<and> unat (17::u32) \<le> 2 ^ j \<and> (j = 2 \<or> 2 ^ (j - 1) < unat (17::u32)) \<and>
        capacities 17 = Some (2 ^ j, (if j = 2 then 4 else 2 ^ j * 8 div 3), 2 ^ j - 1) \<and>
        (j \<le> 28 \<longrightarrow> unat ((2::u32) ^ j * 8 div 3) = 2 ^ j * 8 div 3))"
proof -
  have h: "unat (17::u32) \<le> 2 ^ 31" by simp
  have c: "capacities 17 = Some (32, 85, 31)"
    by (simp add: capacities_def capacityLoop.simps)
  from h c capacities_growth [OF h] show ?thesis by blast
qed

text \<open>
  The claim as stated fails for the counts 0 to 4: the loop body does not run,
  \<open>entriesCapacity\<close> keeps its initial value 4, and \<open>4 * 8 / 3\<close> is 10.
\<close>

theorem capacities_initial_counterexample:
  "capacities 0 = Some (4, 4, 3) \<and> (4::u32) \<noteq> 4 * 8 div 3"
  by (simp add: capacities_def capacityLoop.simps)

text \<open>The capacities for the element counts that the specification lists.\<close>

lemma capacities_listed:
  "capacities 0 = Some (4, 4, 3)" "capacities 1 = Some (4, 4, 3)"
  "capacities 4 = Some (4, 4, 3)" "capacities 5 = Some (8, 21, 7)"
  "capacities 16 = Some (16, 42, 15)" "capacities 17 = Some (32, 85, 31)"
  by (simp_all add: capacities_def capacityLoop.simps)

section \<open>Entry size\<close>

text \<open>
  C6. The entry size computed by \<open>writeMap\<close> is
  \<open>align(keySize + valueSize + 4, max(keySize, valueSize, 4))\<close>, where the alignment
  \<open>max(keySize, valueSize, 4)\<close> is a power of two and the sum does not overflow 32 bits.
\<close>

theorem entrySize_align:
  assumes a: "unat (max (max keySize valueSize) 4) = 2 ^ j"
    and nov: "unat keySize + unat valueSize + 4 + 2 ^ j - 1 < 2 ^ 32"
  shows "unat (calcEntrySize keySize valueSize) =
           spec_align (unat keySize + unat valueSize + 4) (unat (max (max keySize valueSize) 4))"
proof -
  let ?m = "max (max keySize valueSize) 4"
  have m: "?m = 2 ^ j" using a by (rule pow2_word_inj)
  have ea: "calcEntryAlign keySize valueSize = mask j"
    by (simp only: calcEntryAlign_def m mask_eq_exp_minus_1)
  have ua: "unat (calcEntryAlign keySize valueSize) = 2 ^ j - 1"
  proof -
    have "(1::u32) \<le> ?m" by (simp add: word_le_nat_alt a)
    then have "unat (?m - 1) = unat ?m - unat (1::u32)" by (rule unat_sub)
    then show ?thesis by (simp add: calcEntryAlign_def a)
  qed
  have p: "(1::nat) \<le> 2 ^ j" by simp
  have u4: "unat (4::u32) = 4" by simp
  have n1: "unat (keySize + valueSize) = unat keySize + unat valueSize"
    using nov p by (intro unat_add_nowrap) linarith
  have n2: "unat (keySize + valueSize + 4) = unat keySize + unat valueSize + 4"
  proof -
    have "unat (keySize + valueSize) + unat (4::u32) < 2 ^ 32"
      unfolding n1 u4 using nov p by linarith
    then have "unat (keySize + valueSize + 4) = unat (keySize + valueSize) + unat (4::u32)"
      by (rule unat_add_nowrap)
    then show ?thesis unfolding n1 u4 .
  qed
  have n3: "unat (keySize + valueSize + 4 + calcEntryAlign keySize valueSize)
             = unat keySize + unat valueSize + 4 + 2 ^ j - 1"
  proof -
    have "unat (keySize + valueSize + 4) + unat (calcEntryAlign keySize valueSize) < 2 ^ 32"
      unfolding n2 ua using nov p by linarith
    then have "unat (keySize + valueSize + 4 + calcEntryAlign keySize valueSize)
                 = unat (keySize + valueSize + 4) + unat (calcEntryAlign keySize valueSize)"
      by (rule unat_add_nowrap)
    then show ?thesis unfolding n2 ua using p by linarith
  qed
  show ?thesis
    by (simp only: calcEntrySize_def ea and_not_mask_down spec_align_def a)
       (simp only: n3 [unfolded ea])
qed

theorem entrySize_align_witness:
  "unat (max (max (8::u32) 8) 4) = 2 ^ 3 \<and> unat (8::u32) + unat (8::u32) + 4 + 2 ^ 3 - 1 < 2 ^ 32 \<and>
   unat (calcEntrySize 8 8) = spec_align (unat (8::u32) + unat (8::u32) + 4) (unat (max (max (8::u32) 8) 4)) \<and>
   calcEntrySize 8 8 = 24"
proof -
  have a: "unat (max (max (8::u32) 8) 4) = 2 ^ 3" by simp
  have n: "unat (8::u32) + unat (8::u32) + 4 + 2 ^ 3 - 1 < 2 ^ 32" by simp
  have v: "calcEntrySize 8 8 = 24" by (simp add: calcEntrySize_def calcEntryAlign_def)
  from a n v entrySize_align [OF a n] show ?thesis by blast
qed

text \<open>The four size pairs that the specification lists.\<close>

lemma entrySize_listed:
  "calcEntrySize 4 4 = 12" "calcEntrySize 4 8 = 16" "calcEntrySize 8 4 = 16" "calcEntrySize 8 8 = 24"
  "spec_align (4 + 4 + 4) 4 = 12" "spec_align (4 + 8 + 4) 8 = 16" "spec_align (8 + 8 + 4) 8 = 24"
  by (simp_all add: calcEntrySize_def calcEntryAlign_def spec_align_def)

section \<open>Rejected input\<close>

text \<open>
  C9. A host value that is not a native map makes \<open>writeMap\<close> return offset 0 and the
  error \<open>unsupported map type T\<close>, where \<open>T\<close> is the type of the value; nothing is
  allocated, pinned or written. The pseudo-map that \<open>readMap\<close> builds is such a value.
\<close>

theorem writeMap_rejects_non_map:
  assumes "\<forall>kvs. data \<noteq> GoMap kvs"
  shows "writeMap wa s typ data =
           Some ((0, Some (Errorf (''unsupported map type '' @ TypeOf wa data))), s, [])"
  using assms by (cases data) (simp_all add: writeMap_def)

theorem writeMap_rejects_non_map_witness:
  "(\<forall>kvs. GoMapData [(GoOther (1::u32), GoOther 2)] \<noteq> GoMap kvs) \<and>
   writeMap (guestAdapter ''u32'' ''u32'') (emptyGuest 4096) ''Map<u32,u32>''
       (GoMapData [(GoOther 1, GoOther 2)]) =
     Some ((0, Some (Errorf ''unsupported map type struct { Data []struct { Key []uint32; Value uint32 } }'')),
           emptyGuest 4096, [])"
proof -
  have h: "\<forall>kvs. GoMapData [(GoOther (1::u32), GoOther 2)] \<noteq> GoMap kvs" by simp
  from h writeMap_rejects_non_map [OF h, of "guestAdapter ''u32'' ''u32''" "emptyGuest 4096" "''Map<u32,u32>''"]
  show ?thesis by (simp add: guestAdapter_def gTypeOf_def)
qed

section \<open>The header reads of readMap\<close>

declare readMapLoop.simps [simp del] readSliceLoop.simps [simp del]

text \<open>
  C10. The stride is \<open>byteLength / entriesCapacity\<close> with no check of the divisor: when
  the header and the buffer length can be read and \<open>entriesCapacity\<close> reads as 0,
  \<open>readMap\<close> ends in the run-time panic of an integer division by zero, not in a
  returned error.
\<close>

theorem readMap_zero_capacity_panics:
  assumes "ReadUint32Le wa s (offset + 8) = Some entries"
    and "ReadUint32Le wa s (offset + 12) = Some 0"
    and "ReadUint32Le wa s (offset + 20) = Some entriesCount"
    and "ReadUint32Le wa s (entries - 4) = Some byteLength"
  shows "readMap wa s typ offset = Inl (RuntimePanic ''integer divide by zero'')"
  using assms by (simp add: readMap_def)

theorem readMap_zero_capacity_panics_witness:
  "ReadUint32Le (guestAdapter ''u32'' ''u32'') (wordsGuest [(8, 100), (12, 0), (20, 0), (96, 0)]) (0 + 8) = Some 100 \<and>
   ReadUint32Le (guestAdapter ''u32'' ''u32'') (wordsGuest [(8, 100), (12, 0), (20, 0), (96, 0)]) (0 + 12) = Some 0 \<and>
   ReadUint32Le (guestAdapter ''u32'' ''u32'') (wordsGuest [(8, 100), (12, 0), (20, 0), (96, 0)]) (0 + 20) = Some 0 \<and>
   ReadUint32Le (guestAdapter ''u32'' ''u32'') (wordsGuest [(8, 100), (12, 0), (20, 0), (96, 0)]) (100 - 4) = Some 0 \<and>
   readMap (guestAdapter ''u32'' ''u32'') (wordsGuest [(8, 100), (12, 0), (20, 0), (96, 0)]) ''Map<u32,u32>'' 0 =
     Inl (RuntimePanic ''integer divide by zero'')"
proof -
  let ?wa = "guestAdapter ''u32'' ''u32''"
  let ?g = "wordsGuest [(8, 100), (12, 0), (20, 0), (96, 0)]"
  have h1: "ReadUint32Le ?wa ?g (0 + 8) = Some 100"
    and h2: "ReadUint32Le ?wa ?g (0 + 12) = Some 0"
    and h3: "ReadUint32Le ?wa ?g (0 + 20) = Some 0"
    and h4: "ReadUint32Le ?wa ?g (100 - 4) = Some 0"
    by (simp_all add: guestAdapter_def gRead_def wordsGuest_def)
  from h1 h2 h3 h4 readMap_zero_capacity_panics [OF h1 h2 h3 h4, of "''Map<u32,u32>''"]
  show ?thesis by blast
qed

text \<open>
  C3 (as amended). \<open>readMap\<close> reads three of the six header fields, in this order: the
  entries pointer (offset 8), the entries capacity (offset 12) and the entries count
  (offset 20), and then the length word before the entries buffer. When one of these
  reads fails and the reads before it succeed, \<open>readMap\<close> returns the error that names
  that field, and no value.
\<close>

theorem readMap_header_fault:
  "(ReadUint32Le wa s (offset + 8) = None \<longrightarrow>
      readMap wa s typ offset = Inl (Errorf ''failed to read map entries pointer'')) \<and>
   (ReadUint32Le wa s (offset + 8) = Some entries \<and> ReadUint32Le wa s (offset + 12) = None \<longrightarrow>
      readMap wa s typ offset = Inl (Errorf ''failed to read map entries capacity'')) \<and>
   (ReadUint32Le wa s (offset + 8) = Some entries \<and> ReadUint32Le wa s (offset + 12) = Some cap \<and>
    ReadUint32Le wa s (offset + 20) = None \<longrightarrow>
      readMap wa s typ offset = Inl (Errorf ''failed to read map entries count'')) \<and>
   (ReadUint32Le wa s (offset + 8) = Some entries \<and> ReadUint32Le wa s (offset + 12) = Some cap \<and>
    ReadUint32Le wa s (offset + 20) = Some cnt \<and> ReadUint32Le wa s (entries - 4) = None \<longrightarrow>
      readMap wa s typ offset = Inl (Errorf ''failed to read map entries buffer length''))"
  by (simp add: readMap_def)

theorem readMap_header_fault_witness:
  "gRead (wordsGuest [(12, 4), (20, 1)]) (0 + 8) = None \<and>
   readMap (guestAdapter ''u32'' ''u32'') (wordsGuest [(12, 4), (20, 1)]) ''Map<u32,u32>'' 0 =
     Inl (Errorf ''failed to read map entries pointer'') \<and>
   gRead (wordsGuest [(8, 100), (20, 1)]) (0 + 8) = Some 100 \<and>
   gRead (wordsGuest [(8, 100), (20, 1)]) (0 + 12) = None \<and>
   readMap (guestAdapter ''u32'' ''u32'') (wordsGuest [(8, 100), (20, 1)]) ''Map<u32,u32>'' 0 =
     Inl (Errorf ''failed to read map entries capacity'') \<and>
   gRead (wordsGuest [(8, 100), (12, 4)]) (0 + 8) = Some 100 \<and>
   gRead (wordsGuest [(8, 100), (12, 4)]) (0 + 12) = Some 4 \<and>
   gRead (wordsGuest [(8, 100), (12, 4)]) (0 + 20) = None \<and>
   readMap (guestAdapter ''u32'' ''u32'') (wordsGuest [(8, 100), (12, 4)]) ''Map<u32,u32>'' 0 =
     Inl (Errorf ''failed to read map entries count'') \<and>
   gRead (wordsGuest [(8, 100), (12, 4), (20, 1)]) (0 + 8) = Some 100 \<and>
   gRead (wordsGuest [(8, 100), (12, 4), (20, 1)]) (0 + 12) = Some 4 \<and>
   gRead (wordsGuest [(8, 100), (12, 4), (20, 1)]) (0 + 20) = Some 1 \<and>
   gRead (wordsGuest [(8, 100), (12, 4), (20, 1)]) (100 - 4) = None \<and>
   readMap (guestAdapter ''u32'' ''u32'') (wordsGuest [(8, 100), (12, 4), (20, 1)]) ''Map<u32,u32>'' 0 =
     Inl (Errorf ''failed to read map entries buffer length'')"
proof -
  let ?wa = "guestAdapter ''u32'' ''u32''"
  have r: "ReadUint32Le ?wa = gRead" by (simp add: guestAdapter_def)
  let ?g1 = "wordsGuest [(12, 4), (20, 1)]"
  let ?g2 = "wordsGuest [(8, 100), (20, 1)]"
  let ?g3 = "wordsGuest [(8, 100), (12, 4)]"
  let ?g4 = "wordsGuest [(8, 100), (12, 4), (20, 1)]"
  have a: "gRead ?g1 (0 + 8) = None"
    by (simp add: gRead_def wordsGuest_def)
  have b: "gRead ?g2 (0 + 8) = Some 100" "gRead ?g2 (0 + 12) = None"
    by (simp_all add: gRead_def wordsGuest_def)
  have c: "gRead ?g3 (0 + 8) = Some 100" "gRead ?g3 (0 + 12) = Some 4" "gRead ?g3 (0 + 20) = None"
    by (simp_all add: gRead_def wordsGuest_def)
  have d: "gRead ?g4 (0 + 8) = Some 100" "gRead ?g4 (0 + 12) = Some 4" "gRead ?g4 (0 + 20) = Some 1"
    "gRead ?g4 (100 - 4) = None"
    by (simp_all add: gRead_def wordsGuest_def)
  note t1 = readMap_header_fault [of ?wa ?g1 0 "''Map<u32,u32>''" 100 4 1, unfolded r]
  note t2 = readMap_header_fault [of ?wa ?g2 0 "''Map<u32,u32>''" 100 4 1, unfolded r]
  note t3 = readMap_header_fault [of ?wa ?g3 0 "''Map<u32,u32>''" 100 4 1, unfolded r]
  note t4 = readMap_header_fault [of ?wa ?g4 0 "''Map<u32,u32>''" 100 4 1, unfolded r]
  from a t1 have 1: "readMap ?wa ?g1 ''Map<u32,u32>'' 0 = Inl (Errorf ''failed to read map entries pointer'')"
    by blast
  from b t2 have 2: "readMap ?wa ?g2 ''Map<u32,u32>'' 0 = Inl (Errorf ''failed to read map entries capacity'')"
    by blast
  from c t3 have 3: "readMap ?wa ?g3 ''Map<u32,u32>'' 0 = Inl (Errorf ''failed to read map entries count'')"
    by blast
  from d t4 have 4: "readMap ?wa ?g4 ''Map<u32,u32>'' 0 = Inl (Errorf ''failed to read map entries buffer length'')"
    by blast
  from a b c d 1 2 3 4 show ?thesis by blast
qed

text \<open>
  The claim as stated fails for the three fields that are not read. In this instance the
  word at the header's offset 0, the buckets pointer, cannot be read, and \<open>readMap\<close>
  returns a map all the same.
\<close>

theorem readMap_unread_field_counterexample:
  "ReadUint32Le (guestAdapter ''u32'' ''u32'')
       (wordsGuest [(8, 100), (12, 4), (20, 1), (96, 48), (100, 1), (104, 10)]) (0 + 0) = None \<and>
   readMap (guestAdapter ''u32'' ''u32'')
       (wordsGuest [(8, 100), (12, 4), (20, 1), (96, 48), (100, 1), (104, 10)]) ''Map<u32,u32>'' 0 =
     Inr (GoMap [(GoOther 1, GoOther 10)])"
  by (simp add: readMap_def readMapLoop.simps guestAdapter_def gRead_def gReadField_def
        wordsGuest_def getSizeForOffset_def)

section \<open>The pseudo-map branch of readMap\<close>








section \<open>Pins and unpins of writeMap\<close>







lemma pinsOf_map_Pin: "pinsOf (map Pin ps) = ps"
  by (induction ps) simp_all

lemma unpinsOf_map_Pin: "unpinsOf (map Pin ps) = []"
  by (induction ps) simp_all

lemma fieldPtrsOf_map_Pin: "fieldPtrsOf (map Pin ps) = []"
  by (induction ps) simp_all

















section \<open>The deferred unpin and the primary error\<close>

text \<open>
  With at least one pinned pointer, the error that the deferred function leaves in
  \<open>err\<close> does not depend on the error of the \<open>return\<close> statement.
\<close>

lemma unpinDeferred_forgets:
  "ptrs \<noteq> [] \<Longrightarrow> unpinDeferred wa ptrs err r = unpinDeferred wa ptrs None r"
  by (cases ptrs) (simp_all add: Let_def split: prod.splits option.splits)

lemma unpinDeferred_all_ok:
  "(\<forall>p \<in> set ptrs. \<forall>s. fst (unpinWasmMemory wa s p) = None) \<Longrightarrow> ptrs \<noteq> [] \<Longrightarrow>
     fst (unpinDeferred wa ptrs err r) = None"
proof (induction ptrs arbitrary: err r)
  case Nil
  then show ?case by simp
next
  case (Cons p ptrs)
  obtain e s1 where u: "unpinWasmMemory wa (wstate r) p = (e, s1)" by (cases "unpinWasmMemory wa (wstate r) p")
  with Cons.prems(1) have e: "e = None" by (metis fst_conv list.set_intros(1))
  show ?case
  proof (cases ptrs)
    case Nil
    then show ?thesis using u e by simp
  next
    case (Cons q qs)
    then have "ptrs \<noteq> []" by simp
    moreover have "\<forall>p \<in> set ptrs. \<forall>s. fst (unpinWasmMemory wa s p) = None"
      using Cons.prems(1) by simp
    ultimately show ?thesis using Cons.IH u e by simp
  qed
qed

text \<open>
  C4 fails on the code. The entries buffer cannot be allocated: the body returns
  \<open>0, failed to allocate memory for array buffer: out of memory\<close>. The deferred
  function then unpins the buckets buffer, assigns the \<open>nil\<close> result of that unpin to
  \<open>err\<close>, and the caller receives \<open>(0, nil)\<close>.
\<close>

theorem writeMap_masks_primary_error:
  "fst (writeMapBody (guestAdapter ''u32'' ''u32'') ''Map<u32,u32>'' [] 0 (4, 4, 3)
          \<lparr>wstate = emptyGuest 40, pins = [], calls = []\<rparr>) =
     (0, Some (ErrorfW ''failed to allocate memory for array buffer'' (Errorf ''out of memory''))) \<and>
   map_option (\<lambda>(res, g, log). (res, log))
     (writeMap (guestAdapter ''u32'' ''u32'') (emptyGuest 40) ''Map<u32,u32>'' (GoMap [])) =
     Some ((0, None), [Pin 4, Unpin 4])"
  by code_simp

end
